theory Spec2Isabelle
  imports Main "HOL-Library.AList" "HOL-Library.Sublist"
begin

section \<open>Python strings\<close>

text \<open>
  A Python \<open>str\<close> is modelled as a \<open>string\<close> whose characters are read as the code
  points U+0000 .. U+00FF. The text the module handles (tool paths, flags, table keys)
  is ASCII in practice; the three helpers below are exact on the whole range.
\<close>

text \<open>\<open>str.isspace\<close> on one code point below U+0100.\<close>

definition isspace :: "char \<Rightarrow> bool" where
  "isspace c =
     (let n = (of_char c :: nat)
      in (9 \<le> n \<and> n \<le> 13) \<or> (28 \<le> n \<and> n \<le> 32) \<or> n = 133 \<or> n = 160)"

text \<open>\<open>s.strip()\<close>: leading and trailing whitespace removed.\<close>

definition strip :: "string \<Rightarrow> string" where
  "strip s = rev (dropWhile isspace (rev (dropWhile isspace s)))"

text \<open>\<open>s.startswith(p)\<close>.\<close>

definition startswith :: "string \<Rightarrow> string \<Rightarrow> bool" where
  "startswith s p = (take (length p) s = p)"

definition hexdigit :: "nat \<Rightarrow> char" where
  "hexdigit d = ''0123456789abcdef'' ! (d mod 16)"

text \<open>
  One character of \<open>repr(s)\<close> for the chosen quote character \<open>q\<close>, following CPython's
  \<open>unicode_repr\<close>: the quote and the backslash are escaped, tab, newline and carriage
  return get their letter escapes, other non-printable code points are written
  \<open>\xhh\<close>, everything else is copied.
\<close>

definition repr_char :: "char \<Rightarrow> char \<Rightarrow> string" where
  "repr_char q c =
     (let n = (of_char c :: nat)
      in if c = q \<or> c = CHR 0x5C then [CHR 0x5C, c]
         else if n = 9 then [CHR 0x5C, CHR ''t'']
         else if n = 10 then [CHR 0x5C, CHR ''n'']
         else if n = 13 then [CHR 0x5C, CHR ''r'']
         else if n < 32 \<or> n = 127 then [CHR 0x5C, CHR ''x'', hexdigit (n div 16), hexdigit n]
         else if n < 127 then [c]
         else if n \<le> 160 \<or> n = 173 then [CHR 0x5C, CHR ''x'', hexdigit (n div 16), hexdigit n]
         else [c])"

text \<open>
  \<open>repr(s)\<close> of a \<open>str\<close>: single quotes, unless the text holds a single quote and no
  double quote.
\<close>

definition repr :: "string \<Rightarrow> string" where
  "repr s =
     (let q = (if CHR 0x27 \<in> set s \<and> CHR 0x22 \<notin> set s then CHR 0x22 else CHR 0x27)
      in [q] @ concat (map (repr_char q) s) @ [q])"

fun join :: "string \<Rightarrow> string list \<Rightarrow> string" where
  "join sep [] = []"
| "join sep [x] = x"
| "join sep (x # y # ys) = x @ sep @ join sep (y # ys)"

text \<open>\<open>str(xs)\<close> of a list of \<open>str\<close>: the \<open>repr\<close> of each element, in brackets.\<close>

definition str_list :: "string list \<Rightarrow> string" where
  "str_list xs = ''['' @ join '', '' (map repr xs) @ '']''"

section \<open>Paths\<close>

text \<open>
  A \<open>pathlib.Path\<close> on a POSIX host, in the form pathlib keeps it: the root
  (empty, one slash or two) and the components, none of them empty or a single dot.
\<close>

datatype Path = Path (path_root: string) (path_parts: "string list")

fun split :: "char \<Rightarrow> string \<Rightarrow> string list" where
  "split sep [] = [[]]"
| "split sep (c # cs) =
     (if c = sep then [] # split sep cs
      else (case split sep cs of
              [] \<Rightarrow> [[c]]
            | w # ws \<Rightarrow> (c # w) # ws))"

text \<open>
  \<open>Path(s)\<close>: \<open>posixpath.splitroot\<close> (exactly two leading slashes are kept as the root,
  any other number of them is one slash), then the components that are neither empty
  nor a dot.
\<close>

definition Path_of :: "string \<Rightarrow> Path" where
  "Path_of s =
     (let (rt, rel) =
            (if take 1 s \<noteq> ''/'' then ('''', s)
             else if take 1 (drop 1 s) \<noteq> ''/'' \<or> take 1 (drop 2 s) = ''/'' then (''/'', drop 1 s)
             else (take 2 s, drop 2 s))
      in Path rt (filter (\<lambda>x. x \<noteq> [] \<and> x \<noteq> ''.'') (split CHR ''/'' rel)))"

text \<open>\<open>str(p)\<close>.\<close>

definition path_str :: "Path \<Rightarrow> string" where
  "path_str p =
     (let s = path_root p @ join ''/'' (path_parts p)
      in if s = [] then ''.'' else s)"

text \<open>\<open>p.parent\<close>: a path without components is its own parent.\<close>

definition parent :: "Path \<Rightarrow> Path" where
  "parent p = (if path_parts p = [] then p else Path (path_root p) (butlast (path_parts p)))"

text \<open>\<open>p / s\<close>: an absolute right operand replaces the left one.\<close>

definition truediv :: "Path \<Rightarrow> string \<Rightarrow> Path" where
  "truediv p s =
     (let q = Path_of s
      in if path_root q \<noteq> [] then q
         else Path (path_root p) (path_parts p @ path_parts q))"

section \<open>The host and the collaborators\<close>

text \<open>
  What the module asks of the machine it runs on. \<open>run argv\<close> is the decoded standard
  output of \<open>subprocess.run(argv, capture_output=True, encoding="utf-8")\<close>, and \<open>None\<close>
  when \<open>run\<close> raises (the command cannot be started, its output does not decode); a
  non-zero exit status is not an error. \<open>path_exists\<close> answers \<open>Path.exists()\<close> for
  the text of a path.
\<close>

record host =
  run :: "string list \<Rightarrow> string option"
  path_exists :: "string \<Rightarrow> bool"

definition exists :: "host \<Rightarrow> Path \<Rightarrow> bool" where
  "exists h p = path_exists h (path_str p)"

text \<open>
  The machine descriptor as the module reads it: three fields and two derived keys.
\<close>

record MachineSpec =
  os :: string
  arch :: string
  config :: "string option"
  os_dash_config :: string
  os_dash_arch :: string

text \<open>
  Modelled from the spec: the class \<open>MachineSpec\<close> of \<open>machine_spec.py\<close> is not part of
  the sources; its two derived keys join the operating system with the config
  suffix, when there is one, and with the architecture, by a dash.
\<close>

definition machine_spec :: "string \<Rightarrow> string \<Rightarrow> string option \<Rightarrow> MachineSpec" where
  "machine_spec o_s a c =
     \<lparr>os = o_s, arch = a, config = c,
      os_dash_config = (case c of None \<Rightarrow> o_s | Some x \<Rightarrow> o_s @ ''-'' @ x),
      os_dash_arch = o_s @ ''-'' @ a\<rparr>"

datatype py_error = KeyError string | SubprocessError | AttributeError

section \<open>The static tables\<close>

definition APPLE_SDKS :: "(string \<times> string) list" where
  "APPLE_SDKS =
     [(''macos'', ''macosx''),
      (''ios'', ''iphoneos''),
      (''ios-simulator'', ''iphonesimulator''),
      (''watchos'', ''watchos''),
      (''watchos-simulator'', ''watchsimulator''),
      (''tvos'', ''appletvos''),
      (''tvos-simulator'', ''appletvsimulator'')]"

definition APPLE_CLANG_ARCHS :: "(string \<times> string) list" where
  "APPLE_CLANG_ARCHS =
     [(''x86'', ''i386''),
      (''arm'', ''armv7''),
      (''arm64eoabi'', ''arm64e'')]"

definition APPLE_MINIMUM_OS_VERSIONS :: "(string \<times> string) list" where
  "APPLE_MINIMUM_OS_VERSIONS =
     [(''macos'', ''10.9''),
      (''macos-arm64'', ''11.0''),
      (''macos-arm64e'', ''11.0''),
      (''ios'', ''8.0''),
      (''watchos'', ''9.0''),
      (''tvos'', ''13.0'')]"

text \<open>
  An entry is the role, the tool name (or \<open>#role\<close> for an alias) and the rest of the
  tuple: nothing, or one list of extra flags.
\<close>

type_synonym binary_entry = "string \<times> string \<times> string list list"

definition APPLE_BINARIES :: "binary_entry list" where
  "APPLE_BINARIES =
     [(''c'', ''clang'', []),
      (''cpp'', ''clang++'', [[''-stdlib=libc++'']]),
      (''objc'', ''#c'', []),
      (''objcpp'', ''#cpp'', []),
      (''ar'', ''ar'', []),
      (''nm'', ''llvm-nm'', []),
      (''ranlib'', ''ranlib'', []),
      (''strip'', ''strip'', [[''-Sx'']]),
      (''libtool'', ''libtool'', []),
      (''install_name_tool'', ''install_name_tool'', []),
      (''otool'', ''otool'', []),
      (''codesign'', ''codesign'', []),
      (''lipo'', ''lipo'', [])]"

section \<open>The resolver\<close>

text \<open>
  The loop over the binary list (lines 70 to 89), on the dictionary \<open>binaries\<close> and
  the variable \<open>clang_path\<close>. A Python \<open>dict\<close> is an association list in insertion
  order; \<open>d[k] = v\<close> is \<open>AList.update k v d\<close>, \<open>d[k]\<close> raises \<open>KeyError\<close> on a missing
  key.
\<close>

fun binaries_loop ::
  "host \<Rightarrow> string \<Rightarrow> binary_entry list \<Rightarrow> (string \<times> string) list \<times> Path option
     \<Rightarrow> py_error + ((string \<times> string) list \<times> Path option)" where
  "binaries_loop h sdk_name [] st = Inr st"
| "binaries_loop h sdk_name ((identifier, tool_name, rest) # entries) (binaries, clang_path) =
     (if startswith tool_name ''#'' then
        (case map_of binaries (drop 1 tool_name) of
           None \<Rightarrow> Inl (KeyError (drop 1 tool_name))
         | Some v \<Rightarrow>
             binaries_loop h sdk_name entries (AList.update identifier v binaries, clang_path))
      else
        (case run h [''xcrun'', ''--sdk'', sdk_name, ''-f'', tool_name] of
           None \<Rightarrow> Inl SubprocessError
         | Some out \<Rightarrow>
             (let path = strip out;
                  clang_path' = (if tool_name = ''clang'' then Some (Path_of path) else clang_path);
                  argv = [path] @ (case rest of [] \<Rightarrow> [] | r # _ \<Rightarrow> r);
                  raw_val = str_list argv;
                  raw_val' = (if identifier \<in> {''c'', ''cpp''}
                              then raw_val @ '' + common_flags'' else raw_val)
              in binaries_loop h sdk_name entries
                   (AList.update identifier raw_val' binaries, clang_path'))))"

text \<open>
  Lines 92 to 99: the target triple. Python evaluates the arguments of \<open>dict.get\<close>
  before the call, so the lookup of \<open>machine.os\<close> is made, and can raise, whether or
  not the key \<open>machine.os_dash_arch\<close> is in the table.
\<close>

definition os_minver :: "MachineSpec \<Rightarrow> py_error + string" where
  "os_minver machine =
     (case map_of APPLE_MINIMUM_OS_VERSIONS (os machine) of
        None \<Rightarrow> Inl (KeyError (os machine))
      | Some dflt \<Rightarrow>
          Inr (case map_of APPLE_MINIMUM_OS_VERSIONS (os_dash_arch machine) of
                 None \<Rightarrow> dflt
               | Some v \<Rightarrow> v))"

definition clang_arch :: "MachineSpec \<Rightarrow> string" where
  "clang_arch machine =
     (case map_of APPLE_CLANG_ARCHS (arch machine) of
        None \<Rightarrow> arch machine
      | Some a \<Rightarrow> a)"

definition target :: "MachineSpec \<Rightarrow> py_error + string" where
  "target machine =
     (case os_minver machine of
        Inl e \<Rightarrow> Inl e
      | Inr v \<Rightarrow>
          (let t = clang_arch machine @ ''-apple-'' @ os machine @ v
           in Inr (case MachineSpec.config machine of
                     None \<Rightarrow> t
                   | Some c \<Rightarrow> t @ ''-'' @ c)))"

text \<open>
  Lines 101 to 105: \<open>clang_path.parent\<close> on \<open>None\<close> raises \<open>AttributeError\<close>.
\<close>

definition linker_flags :: "host \<Rightarrow> Path option \<Rightarrow> py_error + string list" where
  "linker_flags h clang_path =
     (case clang_path of
        None \<Rightarrow> Inl AttributeError
      | Some p \<Rightarrow>
          Inr ([''-Wl,-dead_strip''] @
               (if exists h (truediv (parent p) ''ld-classic'')
                then [''-Wl,-ld_classic''] else [])))"

text \<open>\<open>d.update(e)\<close> for dictionaries.\<close>

definition dict_update :: "('k \<times> 'v) list \<Rightarrow> ('k \<times> 'v) list \<Rightarrow> ('k \<times> 'v) list" where
  "dict_update d e = fold (\<lambda>(k, v). AList.update k v) e d"

text \<open>
  Lines 107 to 131. \<open>strv_to_meson\<close> lives in \<open>machine_file.py\<close>, which is not part of
  the sources: it is a parameter.
\<close>

definition constants ::
  "(string list \<Rightarrow> string) \<Rightarrow> host \<Rightarrow> MachineSpec \<Rightarrow> Path option \<Rightarrow> string \<Rightarrow> string
     \<Rightarrow> string list \<Rightarrow> (string \<times> string) list" where
  "constants strv_to_meson h machine sdk_prefix tgt sdk_path lflags =
     (let cs = [(''common_flags'', strv_to_meson [''-target'', tgt, ''-isysroot'', sdk_path]),
                (''c_like_flags'', strv_to_meson []),
                (''linker_flags'', strv_to_meson lflags)]
      in case sdk_prefix of
           None \<Rightarrow> cs
         | Some p \<Rightarrow>
             if exists h (truediv (truediv (truediv p ''lib'') ''c++'') ''libc++.a'')
                \<and> os machine \<noteq> ''watchos''
             then dict_update cs
                    [(''cxx_like_flags'', strv_to_meson
                        [''-nostdinc++'',
                         ''-isystem'' @ path_str (truediv (truediv p ''include'') ''c++'')]),
                     (''cxx_link_flags'', strv_to_meson
                        [''-nostdlib++'',
                         ''-L'' @ path_str (truediv (truediv p ''lib'') ''c++''),
                         ''-lc++'',
                         ''-lc++abi''])]
             else cs)"

text \<open>Lines 133 to 143.\<close>

definition built_in_options :: "(string \<times> string) list" where
  "built_in_options =
     [(''c_args'', ''c_like_flags''),
      (''cpp_args'', ''c_like_flags + cxx_like_flags''),
      (''objc_args'', ''c_like_flags''),
      (''objcpp_args'', ''c_like_flags + cxx_like_flags''),
      (''c_link_args'', ''linker_flags''),
      (''cpp_link_args'', ''linker_flags + cxx_link_flags''),
      (''objc_link_args'', ''linker_flags''),
      (''objcpp_link_args'', ''linker_flags + cxx_link_flags''),
      (''b_lundef'', ''true'')]"

text \<open>
  The configuration sink maps a section name to the section's dictionary;
  \<open>config[name] = d\<close> replaces the section. The function returns its result, or the
  exception it raised, together with the sink as the call leaves it. The sink the
  caller passes is \<open>config0\<close>; \<open>config1\<close>, \<open>config2\<close> and \<open>config3\<close> are the sink after
  each assignment.
\<close>

type_synonym config_sink = "string \<rightharpoonup> (string \<times> string) list"

definition init_machine_config ::
  "host \<Rightarrow> (string list \<Rightarrow> string) \<Rightarrow> MachineSpec \<Rightarrow> Path option \<Rightarrow> MachineSpec \<Rightarrow> bool \<Rightarrow> 'c
     \<Rightarrow> config_sink
     \<Rightarrow> (py_error + (string list \<times> (string \<times> string) list)) \<times> config_sink" where
  "init_machine_config h strv_to_meson machine sdk_prefix native_machine is_cross_build
       call_selected_meson config0 =
     (let machine_path = [];
          machine_env = []
      in case map_of APPLE_SDKS (os_dash_config machine) of
           None \<Rightarrow> (Inl (KeyError (os_dash_config machine)), config0)
         | Some sdk_name \<Rightarrow>
      (case run h [''xcrun'', ''--sdk'', sdk_name, ''--show-sdk-path''] of
           None \<Rightarrow> (Inl SubprocessError, config0)
         | Some out \<Rightarrow>
      (let sdk_path = strip out
       in case binaries_loop h sdk_name APPLE_BINARIES ([], None) of
            Inl e \<Rightarrow> (Inl e, config0)
          | Inr (binaries, clang_path) \<Rightarrow>
      (let config1 = config0(''binaries'' \<mapsto> binaries)
       in case target machine of
            Inl e \<Rightarrow> (Inl e, config1)
          | Inr tgt \<Rightarrow>
      (case linker_flags h clang_path of
            Inl e \<Rightarrow> (Inl e, config1)
          | Inr lflags \<Rightarrow>
      (let config2 = config1(''constants'' \<mapsto>
                       constants strv_to_meson h machine sdk_prefix tgt sdk_path lflags);
           config3 = config2(''built-in options'' \<mapsto> built_in_options)
       in (Inr (machine_path, machine_env), config3)))))))"

text \<open>A host for the examples: every tool is found under \<open>/usr/bin\<close>.\<close>

definition demo_host :: host where
  "demo_host =
     \<lparr>run = (\<lambda>argv. if last argv = ''--show-sdk-path''
                     then Some (''/sdks/'' @ argv ! 2 @ ''.sdk'' @ [CHR 0x0A])
                     else Some (''/usr/bin/'' @ last argv @ [CHR 0x0A])),
      path_exists = (\<lambda>p. p = ''/opt/overlay/lib/c++/libc++.a'')\<rparr>"

definition demo_meson :: "string list \<Rightarrow> string" where
  "demo_meson xs = ''['' @ join '', '' (map (\<lambda>s. [CHR 0x27] @ s @ [CHR 0x27]) xs) @ '']''"

section \<open>Reading the results\<close>

text \<open>\<open>config[section][key]\<close> as an option: \<open>None\<close> when the section or the key is missing.\<close>

definition section_entry :: "config_sink \<Rightarrow> string \<Rightarrow> string \<Rightarrow> string option" where
  "section_entry cfg name key = (case cfg name of None \<Rightarrow> None | Some d \<Rightarrow> map_of d key)"

text \<open>The tool locator's answer for one tool: the command of line 75.\<close>

definition xcrun_find :: "host \<Rightarrow> string \<Rightarrow> string \<Rightarrow> string option" where
  "xcrun_find h sdk_name tool_name = run h [''xcrun'', ''--sdk'', sdk_name, ''-f'', tool_name]"

text \<open>
  Modelled from the spec: the operating system named by a key of the SDK table is the
  key's text before its first dash (the keys are OS-dash-config keys; the class that
  derives them is not part of the sources).
\<close>

definition os_component :: "string \<Rightarrow> string" where
  "os_component key = takeWhile (\<lambda>c. c \<noteq> CHR ''-'') key"

section \<open>How a call unfolds\<close>

text \<open>
  A call that returns went through every step: the SDK was found, both kinds of
  \<open>xcrun\<close> calls answered, the triple and the linker flags were built, and the sink
  received three assignments.
\<close>

lemma init_machine_config_Inr:
  assumes "init_machine_config h strv_to_meson machine sdk_prefix native_machine is_cross_build
             call_selected_meson config0 = (Inr r, config')"
  shows "\<exists>sdk_name out binaries clang_path tgt lflags.
           map_of APPLE_SDKS (os_dash_config machine) = Some sdk_name \<and>
           run h [''xcrun'', ''--sdk'', sdk_name, ''--show-sdk-path''] = Some out \<and>
           binaries_loop h sdk_name APPLE_BINARIES ([], None) = Inr (binaries, clang_path) \<and>
           target machine = Inr tgt \<and>
           linker_flags h clang_path = Inr lflags \<and>
           r = ([], []) \<and>
           config' = config0(''binaries'' \<mapsto> binaries,
                       ''constants'' \<mapsto>
                         constants strv_to_meson h machine sdk_prefix tgt (strip out) lflags,
                       ''built-in options'' \<mapsto> built_in_options)"
  using assms unfolding init_machine_config_def
  by (auto simp: Let_def split: option.splits sum.splits prod.splits)

text \<open>
  The loop over the thirteen entries, when it completes: eleven tools were located,
  \<open>clang_path\<close> is the path of \<open>clang\<close>, and the dictionary is the one below.
\<close>

lemma binaries_loop_APPLE_BINARIES:
  assumes "binaries_loop h sdk_name APPLE_BINARIES ([], None) = Inr (binaries, clang_path)"
  shows "\<exists>f. (\<forall>t \<in> {''clang'', ''clang++'', ''ar'', ''llvm-nm'', ''ranlib'', ''strip'', ''libtool'',
                     ''install_name_tool'', ''otool'', ''codesign'', ''lipo''}.
                 xcrun_find h sdk_name t = Some (f t)) \<and>
             clang_path = Some (Path_of (strip (f ''clang''))) \<and>
             binaries =
               [(''c'', str_list [strip (f ''clang'')] @ '' + common_flags''),
                (''cpp'', str_list [strip (f ''clang++''), ''-stdlib=libc++''] @ '' + common_flags''),
                (''objc'', str_list [strip (f ''clang'')] @ '' + common_flags''),
                (''objcpp'', str_list [strip (f ''clang++''), ''-stdlib=libc++''] @ '' + common_flags''),
                (''ar'', str_list [strip (f ''ar'')]),
                (''nm'', str_list [strip (f ''llvm-nm'')]),
                (''ranlib'', str_list [strip (f ''ranlib'')]),
                (''strip'', str_list [strip (f ''strip''), ''-Sx'']),
                (''libtool'', str_list [strip (f ''libtool'')]),
                (''install_name_tool'', str_list [strip (f ''install_name_tool'')]),
                (''otool'', str_list [strip (f ''otool'')]),
                (''codesign'', str_list [strip (f ''codesign'')]),
                (''lipo'', str_list [strip (f ''lipo'')])]"
proof -
  let ?f = "\<lambda>t. the (xcrun_find h sdk_name t)"
  have "(\<forall>t \<in> {''clang'', ''clang++'', ''ar'', ''llvm-nm'', ''ranlib'', ''strip'', ''libtool'',
                     ''install_name_tool'', ''otool'', ''codesign'', ''lipo''}.
                 xcrun_find h sdk_name t = Some (?f t)) \<and>
             clang_path = Some (Path_of (strip (?f ''clang''))) \<and>
             binaries =
               [(''c'', str_list [strip (?f ''clang'')] @ '' + common_flags''),
                (''cpp'', str_list [strip (?f ''clang++''), ''-stdlib=libc++''] @ '' + common_flags''),
                (''objc'', str_list [strip (?f ''clang'')] @ '' + common_flags''),
                (''objcpp'', str_list [strip (?f ''clang++''), ''-stdlib=libc++''] @ '' + common_flags''),
                (''ar'', str_list [strip (?f ''ar'')]),
                (''nm'', str_list [strip (?f ''llvm-nm'')]),
                (''ranlib'', str_list [strip (?f ''ranlib'')]),
                (''strip'', str_list [strip (?f ''strip''), ''-Sx'']),
                (''libtool'', str_list [strip (?f ''libtool'')]),
                (''install_name_tool'', str_list [strip (?f ''install_name_tool'')]),
                (''otool'', str_list [strip (?f ''otool'')]),
                (''codesign'', str_list [strip (?f ''codesign'')]),
                (''lipo'', str_list [strip (?f ''lipo'')])]"
    using assms unfolding APPLE_BINARIES_def xcrun_find_def
    by (simp add: startswith_def Let_def split: option.splits)
  then show ?thesis by (rule exI [of _ ?f])
qed

section \<open>The binaries section\<close>

text \<open>
  Claim C8. In every call that gets through the loop over the binary list, whether it
  later returns or raises, the binaries section written to the sink is the loop's
  dictionary, the roles \<open>c\<close> and \<open>cpp\<close> are in it, and the entry of \<open>objc\<close> is the
  entry of \<open>c\<close>, the entry of \<open>objcpp\<close> the entry of \<open>cpp\<close>.
\<close>

theorem alias_roles_identical:
  assumes "map_of APPLE_SDKS (os_dash_config machine) = Some sdk_name"
    and "run h [''xcrun'', ''--sdk'', sdk_name, ''--show-sdk-path''] = Some out"
    and "binaries_loop h sdk_name APPLE_BINARIES ([], None) = Inr (binaries, clang_path)"
  shows "snd (init_machine_config h strv_to_meson machine sdk_prefix native_machine is_cross_build
                call_selected_meson config0) ''binaries'' = Some binaries
         \<and> map_of binaries ''c'' \<noteq> None
         \<and> map_of binaries ''cpp'' \<noteq> None
         \<and> map_of binaries ''objc'' = map_of binaries ''c''
         \<and> map_of binaries ''objcpp'' = map_of binaries ''cpp''"
proof -
  have "snd (init_machine_config h strv_to_meson machine sdk_prefix native_machine is_cross_build
                call_selected_meson config0) ''binaries'' = Some binaries"
    using assms unfolding init_machine_config_def
    by (simp add: Let_def split: sum.splits)
  moreover from binaries_loop_APPLE_BINARIES [OF assms(3)]
  have "map_of binaries ''c'' \<noteq> None \<and> map_of binaries ''cpp'' \<noteq> None
         \<and> map_of binaries ''objc'' = map_of binaries ''c''
         \<and> map_of binaries ''objcpp'' = map_of binaries ''cpp''"
    by auto
  ultimately show ?thesis by simp
qed

text \<open>
  The theorem at work: a simulator target, whose call raises after the loop (the
  version table has no entry for \<open>ios-simulator\<close>), has left the section in the sink.
\<close>

theorem alias_roles_identical_witness:
  "\<exists>binaries.
     snd (init_machine_config demo_host demo_meson (machine_spec ''ios-simulator'' ''arm64'' None) None
            (machine_spec ''macos'' ''arm64'' None) True () Map.empty) ''binaries'' = Some binaries
     \<and> map_of binaries ''c'' \<noteq> None
     \<and> map_of binaries ''cpp'' \<noteq> None
     \<and> map_of binaries ''objc'' = map_of binaries ''c''
     \<and> map_of binaries ''objcpp'' = map_of binaries ''cpp''"
proof -
  have "\<not> isl (binaries_loop demo_host ''iphonesimulator'' APPLE_BINARIES ([], None))"
    by code_simp
  then obtain binaries clang_path
    where loop: "binaries_loop demo_host ''iphonesimulator'' APPLE_BINARIES ([], None)
                   = Inr (binaries, clang_path)"
    by (cases "binaries_loop demo_host ''iphonesimulator'' APPLE_BINARIES ([], None)") auto
  have sdk: "map_of APPLE_SDKS (os_dash_config (machine_spec ''ios-simulator'' ''arm64'' None))
               = Some ''iphonesimulator''"
    by (simp add: APPLE_SDKS_def machine_spec_def)
  have out: "run demo_host [''xcrun'', ''--sdk'', ''iphonesimulator'', ''--show-sdk-path'']
               = Some (''/sdks/iphonesimulator.sdk'' @ [CHR 0x0A])"
    by (simp add: demo_host_def)
  show ?thesis by (rule exI, rule alias_roles_identical [OF sdk out loop])
qed

text \<open>
  Claim C10. The first entry of the binary list is the role \<open>c\<close> with the tool
  \<open>clang\<close>, not an alias; so a loop that completes has assigned \<open>clang_path\<close> (the
  path of \<open>clang\<close>), the probe for \<open>ld-classic\<close> does not meet \<open>None\<close>, and no call
  raises \<open>AttributeError\<close>.
\<close>

theorem compiler_path_assigned:
  shows "hd APPLE_BINARIES = (''c'', ''clang'', [])
         \<and> (\<forall>binaries clang_path.
               binaries_loop h sdk_name APPLE_BINARIES ([], None) = Inr (binaries, clang_path)
               \<longrightarrow> (\<exists>out. xcrun_find h sdk_name ''clang'' = Some out
                          \<and> clang_path = Some (Path_of (strip out))
                          \<and> linker_flags h clang_path \<noteq> Inl AttributeError))
         \<and> fst (init_machine_config h strv_to_meson machine sdk_prefix native_machine is_cross_build
                   call_selected_meson config0) \<noteq> Inl AttributeError"
proof -
  have loop: "\<exists>out. xcrun_find h sdk_name ''clang'' = Some out
                \<and> clang_path = Some (Path_of (strip out))
                \<and> linker_flags h clang_path \<noteq> Inl AttributeError"
    if "binaries_loop h sdk_name APPLE_BINARIES ([], None) = Inr (binaries, clang_path)"
    for binaries clang_path sdk_name
    using binaries_loop_APPLE_BINARIES [OF that] by (auto simp: linker_flags_def)
  have raised: "e \<noteq> AttributeError"
    if "binaries_loop h sdk_name APPLE_BINARIES ([], None) = Inl e" for e sdk_name
    using that unfolding APPLE_BINARIES_def
    by (auto simp: startswith_def Let_def split: option.splits)
  have "fst (init_machine_config h strv_to_meson machine sdk_prefix native_machine is_cross_build
               call_selected_meson config0) \<noteq> Inl AttributeError"
    unfolding init_machine_config_def
    using loop raised
    by (auto simp: Let_def target_def os_minver_def split: option.splits sum.splits)
  with loop show ?thesis by (simp add: APPLE_BINARIES_def)
qed

text \<open>On the example host the compiler path is \<open>/usr/bin/clang\<close>.\<close>

theorem compiler_path_assigned_witness:
  "(\<exists>binaries. binaries_loop demo_host ''macosx'' APPLE_BINARIES ([], None)
        = Inr (binaries, Some (Path ''/'' [''usr'', ''bin'', ''clang''])))
   \<and> fst (init_machine_config demo_host demo_meson (machine_spec ''macos'' ''arm64'' None) None
             (machine_spec ''macos'' ''arm64'' None) False () Map.empty) \<noteq> Inl AttributeError"
proof -
  have "\<not> isl (binaries_loop demo_host ''macosx'' APPLE_BINARIES ([], None))"
    by code_simp
  then obtain binaries clang_path
    where loop: "binaries_loop demo_host ''macosx'' APPLE_BINARIES ([], None)
                   = Inr (binaries, clang_path)"
    by (cases "binaries_loop demo_host ''macosx'' APPLE_BINARIES ([], None)") auto
  have out: "xcrun_find demo_host ''macosx'' ''clang'' = Some (''/usr/bin/clang'' @ [CHR 0x0A])"
    by (simp add: xcrun_find_def demo_host_def)
  have path: "Path_of (strip (''/usr/bin/clang'' @ [CHR 0x0A])) = Path ''/'' [''usr'', ''bin'', ''clang'']"
    by code_simp
  note inst = compiler_path_assigned
    [where h = demo_host and sdk_name = "''macosx''" and strv_to_meson = demo_meson
       and machine = "machine_spec ''macos'' ''arm64'' None" and sdk_prefix = None
       and native_machine = "machine_spec ''macos'' ''arm64'' None" and is_cross_build = False
       and call_selected_meson = "()" and ?config0.0 = Map.empty]
  from inst loop out path have "clang_path = Some (Path ''/'' [''usr'', ''bin'', ''clang''])"
    by auto
  with loop inst show ?thesis by blast
qed

text \<open>
  The binaries section in the sink is the loop's dictionary as soon as the loop has
  completed, whatever happens afterwards.
\<close>

lemma binaries_section_written:
  assumes "map_of APPLE_SDKS (os_dash_config machine) = Some sdk_name"
    and "run h [''xcrun'', ''--sdk'', sdk_name, ''--show-sdk-path''] = Some out"
    and "binaries_loop h sdk_name APPLE_BINARIES ([], None) = Inr (binaries, clang_path)"
  shows "snd (init_machine_config h strv_to_meson machine sdk_prefix native_machine is_cross_build
                call_selected_meson config0) ''binaries'' = Some binaries"
  using assms unfolding init_machine_config_def
  by (simp add: Let_def split: sum.splits)

text \<open>The example call returns, with both auxiliary values empty.\<close>

lemma demo_call_returns:
  "fst (init_machine_config demo_host demo_meson (machine_spec ''macos'' ''arm64'' None) None
          (machine_spec ''macos'' ''arm64'' None) False () Map.empty) = Inr ([], [])"
  by code_simp

text \<open>
  Claim C4 says that the recorded string is the tool path, then the extra flags,
  joined by spaces. On the example host the entry of \<open>strip\<close> is the list literal
  \<open>['/usr/bin/strip', '-Sx']\<close>, not \<open>/usr/bin/strip -Sx\<close>, and in the entry of \<open>cpp\<close>
  the reference to \<open>common_flags\<close> comes after the flags, not after the path.
\<close>

theorem invocation_string_not_space_joined:
  "section_entry
     (snd (init_machine_config demo_host demo_meson (machine_spec ''macos'' ''arm64'' None) None
             (machine_spec ''macos'' ''arm64'' None) False () Map.empty))
     ''binaries'' ''strip''
     = Some (''['' @ [CHR 0x27] @ ''/usr/bin/strip'' @ [CHR 0x27] @ '', ''
               @ [CHR 0x27] @ ''-Sx'' @ [CHR 0x27] @ '']'')
   \<and> section_entry
     (snd (init_machine_config demo_host demo_meson (machine_spec ''macos'' ''arm64'' None) None
             (machine_spec ''macos'' ''arm64'' None) False () Map.empty))
     ''binaries'' ''strip''
     \<noteq> Some (join '' '' [''/usr/bin/strip'', ''-Sx''])
   \<and> section_entry
     (snd (init_machine_config demo_host demo_meson (machine_spec ''macos'' ''arm64'' None) None
             (machine_spec ''macos'' ''arm64'' None) False () Map.empty))
     ''binaries'' ''cpp''
     = Some (''['' @ [CHR 0x27] @ ''/usr/bin/clang++'' @ [CHR 0x27] @ '', ''
               @ [CHR 0x27] @ ''-stdlib=libc++'' @ [CHR 0x27] @ ''] + common_flags'')"
  by code_simp

text \<open>
  Claim C4, amended. For every entry of the binary list that is not an alias, in
  every call that completes the loop, the recorded string is \<open>str\<close> of the list made
  of the stripped locator output and the entry's extra flags (a bracketed list of
  quoted elements separated by a comma and a space), followed for the roles \<open>c\<close> and
  \<open>cpp\<close> by \<open> + common_flags\<close>.
\<close>

theorem invocation_string:
  assumes "map_of APPLE_SDKS (os_dash_config machine) = Some sdk_name"
    and "run h [''xcrun'', ''--sdk'', sdk_name, ''--show-sdk-path''] = Some out"
    and "binaries_loop h sdk_name APPLE_BINARIES ([], None) = Inr (binaries, clang_path)"
    and "(identifier, tool_name, rest) \<in> set APPLE_BINARIES"
    and "\<not> startswith tool_name ''#''"
  shows "\<exists>path_out.
           xcrun_find h sdk_name tool_name = Some path_out
           \<and> section_entry
               (snd (init_machine_config h strv_to_meson machine sdk_prefix native_machine
                       is_cross_build call_selected_meson config0))
               ''binaries'' identifier
             = Some (str_list ([strip path_out] @ (case rest of [] \<Rightarrow> [] | r # _ \<Rightarrow> r))
                     @ (if identifier \<in> {''c'', ''cpp''} then '' + common_flags'' else []))"
proof -
  from binaries_loop_APPLE_BINARIES [OF assms(3)] obtain f where
    f: "\<forall>t \<in> {''clang'', ''clang++'', ''ar'', ''llvm-nm'', ''ranlib'', ''strip'', ''libtool'',
                 ''install_name_tool'', ''otool'', ''codesign'', ''lipo''}.
          xcrun_find h sdk_name t = Some (f t)"
    and b: "binaries =
               [(''c'', str_list [strip (f ''clang'')] @ '' + common_flags''),
                (''cpp'', str_list [strip (f ''clang++''), ''-stdlib=libc++''] @ '' + common_flags''),
                (''objc'', str_list [strip (f ''clang'')] @ '' + common_flags''),
                (''objcpp'', str_list [strip (f ''clang++''), ''-stdlib=libc++''] @ '' + common_flags''),
                (''ar'', str_list [strip (f ''ar'')]),
                (''nm'', str_list [strip (f ''llvm-nm'')]),
                (''ranlib'', str_list [strip (f ''ranlib'')]),
                (''strip'', str_list [strip (f ''strip''), ''-Sx'']),
                (''libtool'', str_list [strip (f ''libtool'')]),
                (''install_name_tool'', str_list [strip (f ''install_name_tool'')]),
                (''otool'', str_list [strip (f ''otool'')]),
                (''codesign'', str_list [strip (f ''codesign'')]),
                (''lipo'', str_list [strip (f ''lipo'')])]"
    by blast
  have every: "\<forall>(i, t, r) \<in> set APPLE_BINARIES.
          \<not> startswith t ''#'' \<longrightarrow>
          xcrun_find h sdk_name t = Some (f t)
          \<and> map_of binaries i
              = Some (str_list ([strip (f t)] @ (case r of [] \<Rightarrow> [] | x # _ \<Rightarrow> x))
                      @ (if i \<in> {''c'', ''cpp''} then '' + common_flags'' else []))"
    unfolding APPLE_BINARIES_def b using f
    by (simp add: startswith_def)
  from every assms(4,5)
  have "xcrun_find h sdk_name tool_name = Some (f tool_name)
        \<and> map_of binaries identifier
            = Some (str_list ([strip (f tool_name)] @ (case rest of [] \<Rightarrow> [] | r # _ \<Rightarrow> r))
                    @ (if identifier \<in> {''c'', ''cpp''} then '' + common_flags'' else []))"
    by blast
  moreover
  have "snd (init_machine_config h strv_to_meson machine sdk_prefix native_machine
               is_cross_build call_selected_meson config0) ''binaries'' = Some binaries"
    by (rule binaries_section_written [OF assms(1-3)])
  ultimately show ?thesis
    by (simp add: section_entry_def)
qed

text \<open>The entry of \<open>strip\<close> on the example host.\<close>

theorem invocation_string_witness:
  "section_entry
     (snd (init_machine_config demo_host demo_meson (machine_spec ''macos'' ''arm64'' None) None
             (machine_spec ''macos'' ''arm64'' None) False () Map.empty))
     ''binaries'' ''strip''
   = Some (str_list [''/usr/bin/strip'', ''-Sx''])"
proof -
  have "\<not> isl (binaries_loop demo_host ''macosx'' APPLE_BINARIES ([], None))"
    by code_simp
  then obtain binaries clang_path
    where loop: "binaries_loop demo_host ''macosx'' APPLE_BINARIES ([], None)
                   = Inr (binaries, clang_path)"
    by (cases "binaries_loop demo_host ''macosx'' APPLE_BINARIES ([], None)") auto
  have sdk: "map_of APPLE_SDKS (os_dash_config (machine_spec ''macos'' ''arm64'' None))
               = Some ''macosx''"
    by (simp add: APPLE_SDKS_def machine_spec_def)
  have out: "run demo_host [''xcrun'', ''--sdk'', ''macosx'', ''--show-sdk-path'']
               = Some (''/sdks/macosx.sdk'' @ [CHR 0x0A])"
    by (simp add: demo_host_def)
  have entry: "(''strip'', ''strip'', [[''-Sx'']]) \<in> set APPLE_BINARIES"
    by (simp add: APPLE_BINARIES_def)
  have tool: "\<not> startswith ''strip'' ''#''"
    by (simp add: startswith_def)
  have found: "xcrun_find demo_host ''macosx'' ''strip'' = Some (''/usr/bin/strip'' @ [CHR 0x0A])"
    by (simp add: xcrun_find_def demo_host_def)
  have stripped: "strip (''/usr/bin/strip'' @ [CHR 0x0A]) = ''/usr/bin/strip''"
    by code_simp
  note inst = invocation_string [OF sdk out loop entry tool,
      where strv_to_meson = demo_meson and sdk_prefix = None
        and native_machine = "machine_spec ''macos'' ''arm64'' None" and is_cross_build = False
        and call_selected_meson = "()" and ?config0.0 = Map.empty]
  from inst found stripped show ?thesis by auto
qed

section \<open>The constants, the options and the sink\<close>

lemma demo_call_pair:
  "init_machine_config demo_host demo_meson (machine_spec ''macos'' ''arm64'' None) None
     (machine_spec ''macos'' ''arm64'' None) False () Map.empty
   = (Inr ([], []),
      snd (init_machine_config demo_host demo_meson (machine_spec ''macos'' ''arm64'' None) None
             (machine_spec ''macos'' ''arm64'' None) False () Map.empty))"
  using demo_call_returns by (simp add: prod_eq_iff)

text \<open>The keys of the constants dictionary, in order.\<close>

lemma constants_keys:
  "map fst (constants strv_to_meson h machine sdk_prefix tgt sdk_path lflags)
   = [''common_flags'', ''c_like_flags'', ''linker_flags'']
     @ (if \<exists>p. sdk_prefix = Some p
              \<and> exists h (truediv (truediv (truediv p ''lib'') ''c++'') ''libc++.a'')
              \<and> os machine \<noteq> ''watchos''
        then [''cxx_like_flags'', ''cxx_link_flags''] else [])"
  by (cases sdk_prefix) (simp_all add: constants_def dict_update_def Let_def)

lemma constants_section_written:
  assumes "init_machine_config h strv_to_meson machine sdk_prefix native_machine is_cross_build
             call_selected_meson config0 = (Inr r, config')"
  shows "\<exists>tgt out sdk_name lflags.
           target machine = Inr tgt
           \<and> map_of APPLE_SDKS (os_dash_config machine) = Some sdk_name
           \<and> run h [''xcrun'', ''--sdk'', sdk_name, ''--show-sdk-path''] = Some out
           \<and> config' ''constants''
               = Some (constants strv_to_meson h machine sdk_prefix tgt (strip out) lflags)"
  using init_machine_config_Inr [OF assms] by auto

text \<open>The example call with an overlay whose archive exists.\<close>

lemma demo_overlay_call:
  "fst (init_machine_config demo_host demo_meson (machine_spec ''macos'' ''arm64'' None)
          (Some (Path_of ''/opt/overlay'')) (machine_spec ''macos'' ''arm64'' None) False ()
          Map.empty) = Inr ([], [])"
  by code_simp

lemma demo_overlay_archive:
  "exists demo_host
     (truediv (truediv (truediv (Path_of ''/opt/overlay'') ''lib'') ''c++'') ''libc++.a'')"
  by code_simp

text \<open>What a call that returns has done to the sink.\<close>

lemma sink_after_call:
  assumes "init_machine_config h strv_to_meson machine sdk_prefix native_machine is_cross_build
             call_selected_meson config0 = (Inr r, config')"
  shows "dom config' = dom config0 \<union> {''binaries'', ''constants'', ''built-in options''}"
    and "\<forall>name. name \<notin> {''binaries'', ''constants'', ''built-in options''}
                \<longrightarrow> config' name = config0 name"
    and "r = ([], [])"
proof -
  from init_machine_config_Inr [OF assms] obtain b c where
    eq: "config' = config0(''binaries'' \<mapsto> b, ''constants'' \<mapsto> c,
                     ''built-in options'' \<mapsto> built_in_options)"
    and r: "r = ([], [])"
    by blast
  show "dom config' = dom config0 \<union> {''binaries'', ''constants'', ''built-in options''}"
    unfolding eq by auto
  show "\<forall>name. name \<notin> {''binaries'', ''constants'', ''built-in options''}
                \<longrightarrow> config' name = config0 name"
    unfolding eq by simp
  show "r = ([], [])" by (rule r)
qed

text \<open>
  Claim C1 says that without an overlay the entry \<open>cpp_args\<close> combines \<open>c_like_flags\<close>
  only. On the example host, with no overlay, the entries \<open>cpp_args\<close> and
  \<open>objcpp_args\<close> are \<open>c_like_flags + cxx_like_flags\<close>, which names \<open>cxx_like_flags\<close>,
  while the constants section has no such key.
\<close>

theorem cpp_args_names_cxx_like_flags:
  "section_entry
     (snd (init_machine_config demo_host demo_meson (machine_spec ''macos'' ''arm64'' None) None
             (machine_spec ''macos'' ''arm64'' None) False () Map.empty))
     ''built-in options'' ''cpp_args'' = Some ''c_like_flags + cxx_like_flags''
   \<and> section_entry
     (snd (init_machine_config demo_host demo_meson (machine_spec ''macos'' ''arm64'' None) None
             (machine_spec ''macos'' ''arm64'' None) False () Map.empty))
     ''built-in options'' ''objcpp_args'' = Some ''c_like_flags + cxx_like_flags''
   \<and> sublist ''cxx_like_flags'' ''c_like_flags + cxx_like_flags''
   \<and> section_entry
     (snd (init_machine_config demo_host demo_meson (machine_spec ''macos'' ''arm64'' None) None
             (machine_spec ''macos'' ''arm64'' None) False () Map.empty))
     ''constants'' ''cxx_like_flags'' = None"
  by code_simp

text \<open>
  Claim C1, amended. In every call that returns, with or without an overlay, the
  built-in options section is the fixed table, whose entries \<open>cpp_args\<close> and
  \<open>objcpp_args\<close> are the expression \<open>c_like_flags + cxx_like_flags\<close>.
\<close>

theorem built_in_options_fixed:
  assumes "init_machine_config h strv_to_meson machine sdk_prefix native_machine is_cross_build
             call_selected_meson config0 = (Inr r, config')"
  shows "config' ''built-in options'' = Some built_in_options
         \<and> section_entry config' ''built-in options'' ''cpp_args''
             = Some ''c_like_flags + cxx_like_flags''
         \<and> section_entry config' ''built-in options'' ''objcpp_args''
             = Some ''c_like_flags + cxx_like_flags''"
  using init_machine_config_Inr [OF assms]
  by (auto simp: section_entry_def built_in_options_def)

theorem built_in_options_fixed_witness:
  "section_entry
     (snd (init_machine_config demo_host demo_meson (machine_spec ''macos'' ''arm64'' None) None
             (machine_spec ''macos'' ''arm64'' None) False () Map.empty))
     ''built-in options'' ''objcpp_args'' = Some ''c_like_flags + cxx_like_flags''"
  using built_in_options_fixed [OF demo_call_pair] by simp

text \<open>
  Claim C2. In every call that returns, the constants section holds the keys
  \<open>cxx_like_flags\<close> and \<open>cxx_link_flags\<close>, both, when an overlay path is given, the
  archive \<open>lib/c++/libc++.a\<close> exists under it and the OS is not \<open>watchos\<close>; otherwise it
  holds neither.
\<close>

theorem cxx_constants_iff:
  assumes "init_machine_config h strv_to_meson machine sdk_prefix native_machine is_cross_build
             call_selected_meson config0 = (Inr r, config')"
  shows "\<exists>cs. config' ''constants'' = Some cs
           \<and> (if \<exists>p. sdk_prefix = Some p
                      \<and> exists h (truediv (truediv (truediv p ''lib'') ''c++'') ''libc++.a'')
                      \<and> os machine \<noteq> ''watchos''
              then ''cxx_like_flags'' \<in> set (map fst cs) \<and> ''cxx_link_flags'' \<in> set (map fst cs)
              else ''cxx_like_flags'' \<notin> set (map fst cs) \<and> ''cxx_link_flags'' \<notin> set (map fst cs))"
proof -
  from constants_section_written [OF assms] obtain tgt out lflags where
    "config' ''constants''
       = Some (constants strv_to_meson h machine sdk_prefix tgt (strip out) lflags)"
    by blast
  then show ?thesis
    by (simp add: constants_keys)
qed

theorem cxx_constants_iff_witness:
  "\<exists>cs. snd (init_machine_config demo_host demo_meson (machine_spec ''macos'' ''arm64'' None)
               (Some (Path_of ''/opt/overlay'')) (machine_spec ''macos'' ''arm64'' None) False ()
               Map.empty) ''constants'' = Some cs
        \<and> ''cxx_like_flags'' \<in> set (map fst cs) \<and> ''cxx_link_flags'' \<in> set (map fst cs)"
proof -
  have call: "init_machine_config demo_host demo_meson (machine_spec ''macos'' ''arm64'' None)
               (Some (Path_of ''/opt/overlay'')) (machine_spec ''macos'' ''arm64'' None) False ()
               Map.empty
             = (Inr ([], []),
                snd (init_machine_config demo_host demo_meson (machine_spec ''macos'' ''arm64'' None)
                       (Some (Path_of ''/opt/overlay'')) (machine_spec ''macos'' ''arm64'' None)
                       False () Map.empty))"
    using demo_overlay_call by (simp add: prod_eq_iff)
  have "os (machine_spec ''macos'' ''arm64'' None) \<noteq> ''watchos''"
    by (simp add: machine_spec_def)
  with cxx_constants_iff [OF call] demo_overlay_archive show ?thesis
    by simp
qed

text \<open>
  Claim C3 says that four sections are inserted. The example call, on an empty sink,
  returns and leaves three sections in it.
\<close>

theorem three_sections_written:
  "fst (init_machine_config demo_host demo_meson (machine_spec ''macos'' ''arm64'' None) None
          (machine_spec ''macos'' ''arm64'' None) False () Map.empty) = Inr ([], [])
   \<and> dom (snd (init_machine_config demo_host demo_meson (machine_spec ''macos'' ''arm64'' None) None
                 (machine_spec ''macos'' ''arm64'' None) False () Map.empty))
       = {''binaries'', ''constants'', ''built-in options''}
   \<and> card (dom (snd (init_machine_config demo_host demo_meson (machine_spec ''macos'' ''arm64'' None)
                       None (machine_spec ''macos'' ''arm64'' None) False () Map.empty))) \<noteq> 4"
  using sink_after_call(1) [OF demo_call_pair] demo_call_returns by simp

text \<open>
  Claim C3, amended. A call that returns has assigned three sections of the sink
  (binaries, constants, built-in options), has left every other section as it was,
  and returns an empty search-path list and an empty environment dictionary.
\<close>

theorem sections_and_auxiliary_values:
  assumes "init_machine_config h strv_to_meson machine sdk_prefix native_machine is_cross_build
             call_selected_meson config0 = (Inr r, config')"
  shows "r = ([], [])
         \<and> dom config' = dom config0 \<union> {''binaries'', ''constants'', ''built-in options''}
         \<and> (\<forall>name. name \<notin> {''binaries'', ''constants'', ''built-in options''}
                \<longrightarrow> config' name = config0 name)"
  using sink_after_call [OF assms] by blast

theorem sections_and_auxiliary_values_witness:
  "dom (snd (init_machine_config demo_host demo_meson (machine_spec ''macos'' ''arm64'' None) None
               (machine_spec ''macos'' ''arm64'' None) False () Map.empty))
     = dom (Map.empty :: config_sink) \<union> {''binaries'', ''constants'', ''built-in options''}
   \<and> snd (init_machine_config demo_host demo_meson (machine_spec ''macos'' ''arm64'' None) None
               (machine_spec ''macos'' ''arm64'' None) False () Map.empty) ''properties'' = None"
  using sections_and_auxiliary_values [OF demo_call_pair] by simp

section \<open>Lookup failures\<close>

text \<open>The loop over the binary list raises only when \<open>xcrun\<close> cannot be run.\<close>

lemma binaries_loop_raises:
  assumes "binaries_loop h sdk_name APPLE_BINARIES ([], None) = Inl e"
  shows "e = SubprocessError"
  using assms unfolding APPLE_BINARIES_def
  by (simp add: startswith_def Let_def split: option.splits)

text \<open>
  For a descriptor built from an operating system without a dash, the operating
  system is the OS component of the descriptor's OS-dash-config key.
\<close>

lemma os_component_machine_spec:
  assumes "CHR ''-'' \<notin> set o_s"
  shows "os_component (os_dash_config (machine_spec o_s a c)) = o_s"
proof -
  have all: "takeWhile (\<lambda>c. c \<noteq> CHR ''-'') o_s = o_s"
    using assms by (auto simp: takeWhile_eq_all_conv)
  have "takeWhile (\<lambda>c. c \<noteq> CHR ''-'') (o_s @ ''-'' @ x) = o_s" for x
    using assms by (subst takeWhile_append2) auto
  with all show ?thesis
    by (cases c) (simp_all add: os_component_def machine_spec_def)
qed

text \<open>
  Claim C5. When the OS-dash-config key is not in the SDK table the call raises
  \<open>KeyError\<close> and the sink is as the caller passed it. When the key is in the table,
  \<open>xcrun\<close> has answered and the loop has completed, but the operating system is not in
  the version table, the call raises \<open>KeyError\<close> and the sink differs from the caller's
  by the binaries section.
\<close>

theorem lookup_failures:
  "(map_of APPLE_SDKS (os_dash_config machine) = None
      \<longrightarrow> init_machine_config h strv_to_meson machine sdk_prefix native_machine is_cross_build
            call_selected_meson config0
          = (Inl (KeyError (os_dash_config machine)), config0))
   \<and> (map_of APPLE_SDKS (os_dash_config machine) = Some sdk_name
      \<and> run h [''xcrun'', ''--sdk'', sdk_name, ''--show-sdk-path''] = Some out
      \<and> binaries_loop h sdk_name APPLE_BINARIES ([], None) = Inr (binaries, clang_path)
      \<and> map_of APPLE_MINIMUM_OS_VERSIONS (os machine) = None
      \<longrightarrow> init_machine_config h strv_to_meson machine sdk_prefix native_machine is_cross_build
            call_selected_meson config0
          = (Inl (KeyError (os machine)), config0(''binaries'' \<mapsto> binaries)))"
  unfolding init_machine_config_def
  by (simp add: Let_def target_def os_minver_def)

text \<open>
  Both failures on the example host: \<open>linux\<close> is not in the SDK table;
  \<open>ios-simulator\<close> without a config suffix is, and is not in the version table.
\<close>

theorem lookup_failures_witness:
  "init_machine_config demo_host demo_meson (machine_spec ''linux'' ''x86_64'' None) None
     (machine_spec ''macos'' ''arm64'' None) True () Map.empty
   = (Inl (KeyError ''linux''), Map.empty)
   \<and> (\<exists>binaries.
        init_machine_config demo_host demo_meson (machine_spec ''ios-simulator'' ''arm64'' None) None
          (machine_spec ''macos'' ''arm64'' None) True () Map.empty
        = (Inl (KeyError ''ios-simulator''), [''binaries'' \<mapsto> binaries]))"
proof -
  have no_sdk: "map_of APPLE_SDKS (os_dash_config (machine_spec ''linux'' ''x86_64'' None)) = None"
    by (simp add: APPLE_SDKS_def machine_spec_def)
  have first: "init_machine_config demo_host demo_meson (machine_spec ''linux'' ''x86_64'' None) None
     (machine_spec ''macos'' ''arm64'' None) True () Map.empty
   = (Inl (KeyError ''linux''), Map.empty)"
    using no_sdk
      lookup_failures [where machine = "machine_spec ''linux'' ''x86_64'' None" and h = demo_host
        and strv_to_meson = demo_meson and sdk_prefix = None
        and native_machine = "machine_spec ''macos'' ''arm64'' None" and is_cross_build = True
        and call_selected_meson = "()" and ?config0.0 = Map.empty]
    by (simp add: machine_spec_def)
  have "\<not> isl (binaries_loop demo_host ''iphonesimulator'' APPLE_BINARIES ([], None))"
    by code_simp
  then obtain binaries clang_path
    where loop: "binaries_loop demo_host ''iphonesimulator'' APPLE_BINARIES ([], None)
                   = Inr (binaries, clang_path)"
    by (cases "binaries_loop demo_host ''iphonesimulator'' APPLE_BINARIES ([], None)") auto
  have sdk: "map_of APPLE_SDKS (os_dash_config (machine_spec ''ios-simulator'' ''arm64'' None))
               = Some ''iphonesimulator''"
    by (simp add: APPLE_SDKS_def machine_spec_def)
  have out: "run demo_host [''xcrun'', ''--sdk'', ''iphonesimulator'', ''--show-sdk-path'']
               = Some (''/sdks/iphonesimulator.sdk'' @ [CHR 0x0A])"
    by (simp add: demo_host_def)
  have no_version: "map_of APPLE_MINIMUM_OS_VERSIONS (os (machine_spec ''ios-simulator'' ''arm64'' None))
               = None"
    by (simp add: APPLE_MINIMUM_OS_VERSIONS_def machine_spec_def)
  have "init_machine_config demo_host demo_meson (machine_spec ''ios-simulator'' ''arm64'' None) None
          (machine_spec ''macos'' ''arm64'' None) True () Map.empty
        = (Inl (KeyError ''ios-simulator''), [''binaries'' \<mapsto> binaries])"
    using sdk out loop no_version
      lookup_failures [where machine = "machine_spec ''ios-simulator'' ''arm64'' None"
        and h = demo_host and sdk_name = "''iphonesimulator''"
        and out = "''/sdks/iphonesimulator.sdk'' @ [CHR 0x0A]"
        and binaries = binaries and clang_path = clang_path
        and strv_to_meson = demo_meson and sdk_prefix = None
        and native_machine = "machine_spec ''macos'' ''arm64'' None" and is_cross_build = True
        and call_selected_meson = "()" and ?config0.0 = Map.empty]
    by (simp add: machine_spec_def)
  with first show ?thesis by blast
qed

text \<open>
  Claim C6 says that the version lookup cannot fail for any target that passes SDK
  identification. The descriptor with the operating system \<open>ios-simulator\<close> and no
  config suffix has the key \<open>ios-simulator\<close>, which is in the SDK table; its operating
  system is not in the version table, the lookup raises \<open>KeyError\<close>, and so does the
  call on the example host.
\<close>

theorem sdk_identified_version_lookup_fails:
  "map_of APPLE_SDKS (os_dash_config (machine_spec ''ios-simulator'' ''arm64'' None))
     = Some ''iphonesimulator''
   \<and> os_minver (machine_spec ''ios-simulator'' ''arm64'' None)
       = Inl (KeyError ''ios-simulator'')
   \<and> fst (init_machine_config demo_host demo_meson (machine_spec ''ios-simulator'' ''arm64'' None)
            None (machine_spec ''macos'' ''arm64'' None) True () Map.empty)
       = Inl (KeyError ''ios-simulator'')"
  by code_simp

text \<open>
  Claim C6, amended. For every key of the SDK table, the OS component of the key (its
  text before the first dash) is a key of the version table. So, for a descriptor
  whose operating system is the OS component of its OS-dash-config key, once the key
  is in the SDK table the version lookup succeeds, and the call raises no \<open>KeyError\<close>
  at all.
\<close>

theorem sdk_os_has_minimum_version:
  "(\<forall>key \<in> set (map fst APPLE_SDKS).
      os_component key \<in> set (map fst APPLE_MINIMUM_OS_VERSIONS))
   \<and> (map_of APPLE_SDKS (os_dash_config machine) \<noteq> None
      \<and> os machine = os_component (os_dash_config machine)
      \<longrightarrow> (\<exists>v. os_minver machine = Inr v)
          \<and> (\<forall>key. fst (init_machine_config h strv_to_meson machine sdk_prefix native_machine
                            is_cross_build call_selected_meson config0) \<noteq> Inl (KeyError key)))"
proof -
  have table: "\<forall>key \<in> set (map fst APPLE_SDKS).
      os_component key \<in> set (map fst APPLE_MINIMUM_OS_VERSIONS)"
    by (simp add: APPLE_SDKS_def APPLE_MINIMUM_OS_VERSIONS_def os_component_def)
  have lookup: "(\<exists>v. os_minver machine = Inr v)
          \<and> (\<forall>key. fst (init_machine_config h strv_to_meson machine sdk_prefix native_machine
                            is_cross_build call_selected_meson config0) \<noteq> Inl (KeyError key))"
    if sdk: "map_of APPLE_SDKS (os_dash_config machine) \<noteq> None"
      and os: "os machine = os_component (os_dash_config machine)"
  proof -
    from sdk have "os_dash_config machine \<in> set (map fst APPLE_SDKS)"
      by (simp add: map_of_eq_None_iff)
    with table os have "os machine \<in> set (map fst APPLE_MINIMUM_OS_VERSIONS)"
      by metis
    then have "map_of APPLE_MINIMUM_OS_VERSIONS (os machine) \<noteq> None"
      by (simp add: map_of_eq_None_iff)
    then obtain d where d: "map_of APPLE_MINIMUM_OS_VERSIONS (os machine) = Some d"
      by blast
    then have minver: "\<exists>v. os_minver machine = Inr v"
      by (simp add: os_minver_def)
    then have tgt: "\<exists>t. target machine = Inr t"
      by (auto simp: target_def Let_def)
    have "fst (init_machine_config h strv_to_meson machine sdk_prefix native_machine
                 is_cross_build call_selected_meson config0) \<noteq> Inl (KeyError key)" for key
      unfolding init_machine_config_def
      using sdk tgt binaries_loop_raises [of h]
      by (auto simp: Let_def linker_flags_def split: option.splits sum.splits)
    with minver show ?thesis by blast
  qed
  from table lookup show ?thesis by blast
qed

theorem sdk_os_has_minimum_version_witness:
  "os_component ''tvos-simulator'' \<in> set (map fst APPLE_MINIMUM_OS_VERSIONS)
   \<and> (\<exists>v. os_minver (machine_spec ''tvos'' ''arm64'' (Some ''simulator'')) = Inr v)"
proof -
  have key: "''tvos-simulator'' \<in> set (map fst APPLE_SDKS)"
    by (simp add: APPLE_SDKS_def)
  have sdk: "map_of APPLE_SDKS (os_dash_config (machine_spec ''tvos'' ''arm64'' (Some ''simulator'')))
               \<noteq> None"
    by (simp add: APPLE_SDKS_def machine_spec_def)
  have os: "os (machine_spec ''tvos'' ''arm64'' (Some ''simulator''))
              = os_component (os_dash_config (machine_spec ''tvos'' ''arm64'' (Some ''simulator'')))"
    by (simp add: os_component_def machine_spec_def)
  note inst = sdk_os_has_minimum_version
    [where machine = "machine_spec ''tvos'' ''arm64'' (Some ''simulator'')" and h = demo_host
       and strv_to_meson = demo_meson and sdk_prefix = None
       and native_machine = "machine_spec ''macos'' ''arm64'' None" and is_cross_build = True
       and call_selected_meson = "()" and ?config0.0 = Map.empty]
  from inst key sdk os show ?thesis by blast
qed

section \<open>The target triple\<close>

lemma constants_common_flags:
  "map_of (constants strv_to_meson h machine sdk_prefix tgt sdk_path lflags) ''common_flags''
   = Some (strv_to_meson [''-target'', tgt, ''-isysroot'', sdk_path])"
  by (cases sdk_prefix) (simp_all add: constants_def dict_update_def Let_def)

text \<open>
  Claim C7. For an architecture that is not a key of the alias table, the mapping
  returns the architecture itself and raises nothing (the triple fails only on the
  version lookup); the triple starts with the architecture, followed by \<open>-apple-\<close>,
  and this is the triple after \<open>-target\<close> in the constant \<open>common_flags\<close> of every call
  that returns.
\<close>

theorem arch_identity_fallback:
  assumes "map_of APPLE_CLANG_ARCHS (arch machine) = None"
  shows "clang_arch machine = arch machine
         \<and> (\<forall>e. target machine = Inl e \<longrightarrow> e = KeyError (os machine))
         \<and> (\<forall>t. target machine = Inr t \<longrightarrow> prefix (arch machine @ ''-apple-'') t)
         \<and> (\<forall>r config'.
               init_machine_config h strv_to_meson machine sdk_prefix native_machine is_cross_build
                 call_selected_meson config0 = (Inr r, config')
               \<longrightarrow> (\<exists>t sdk_path.
                      prefix (arch machine @ ''-apple-'') t
                      \<and> section_entry config' ''constants'' ''common_flags''
                          = Some (strv_to_meson [''-target'', t, ''-isysroot'', sdk_path])))"
proof -
  have arch: "clang_arch machine = arch machine"
    using assms by (simp add: clang_arch_def)
  have err: "e = KeyError (os machine)" if "target machine = Inl e" for e
    using that
    by (auto simp: target_def os_minver_def Let_def split: option.splits sum.splits)
  have pre: "prefix (arch machine @ ''-apple-'') t" if "target machine = Inr t" for t
    using that arch
    by (auto simp: target_def Let_def split: option.splits sum.splits)
  have "\<exists>t sdk_path.
          prefix (arch machine @ ''-apple-'') t
          \<and> section_entry config' ''constants'' ''common_flags''
              = Some (strv_to_meson [''-target'', t, ''-isysroot'', sdk_path])"
    if "init_machine_config h strv_to_meson machine sdk_prefix native_machine is_cross_build
          call_selected_meson config0 = (Inr r, config')" for r config'
  proof -
    from constants_section_written [OF that] obtain tgt out lflags where
      t: "target machine = Inr tgt"
      and c: "config' ''constants''
                = Some (constants strv_to_meson h machine sdk_prefix tgt (strip out) lflags)"
      by blast
    from c have "section_entry config' ''constants'' ''common_flags''
                   = Some (strv_to_meson [''-target'', tgt, ''-isysroot'', strip out])"
      by (simp add: section_entry_def constants_common_flags)
    with pre [OF t] show ?thesis by blast
  qed
  with arch err pre show ?thesis by blast
qed

theorem arch_identity_fallback_witness:
  "clang_arch (machine_spec ''macos'' ''arm64'' None) = ''arm64''
   \<and> (\<exists>t sdk_path.
        prefix ''arm64-apple-'' t
        \<and> section_entry
            (snd (init_machine_config demo_host demo_meson (machine_spec ''macos'' ''arm64'' None) None
                    (machine_spec ''macos'' ''arm64'' None) False () Map.empty))
            ''constants'' ''common_flags''
          = Some (demo_meson [''-target'', t, ''-isysroot'', sdk_path]))"
proof -
  have no_alias: "map_of APPLE_CLANG_ARCHS (arch (machine_spec ''macos'' ''arm64'' None)) = None"
    by (simp add: APPLE_CLANG_ARCHS_def machine_spec_def)
  have a: "arch (machine_spec ''macos'' ''arm64'' None) = ''arm64''"
    by (simp add: machine_spec_def)
  note inst = arch_identity_fallback [OF no_alias, where h = demo_host
       and strv_to_meson = demo_meson and sdk_prefix = None
       and native_machine = "machine_spec ''macos'' ''arm64'' None" and is_cross_build = False
       and call_selected_meson = "()" and ?config0.0 = Map.empty]
  have joined: "''arm64'' @ ''-apple-'' = ''arm64-apple-''"
    by simp
  from inst demo_call_pair show ?thesis
    unfolding a joined by blast
qed

text \<open>
  Claim C9. For the operating system \<open>macos\<close>, the architecture \<open>arm64\<close>, no config
  suffix and no overlay, the triple is \<open>arm64-apple-macos11.0\<close>, and in every call that
  returns the constants section has exactly the keys \<open>common_flags\<close>, \<open>c_like_flags\<close>
  and \<open>linker_flags\<close>, with the triple in \<open>common_flags\<close>.
\<close>

theorem macos_arm64_example:
  "target (machine_spec ''macos'' ''arm64'' None) = Inr ''arm64-apple-macos11.0''
   \<and> (\<forall>r config'.
         init_machine_config h strv_to_meson (machine_spec ''macos'' ''arm64'' None) None
           native_machine is_cross_build call_selected_meson config0 = (Inr r, config')
         \<longrightarrow> (\<exists>constants_section out.
                config' ''constants'' = Some constants_section
                \<and> map fst constants_section = [''common_flags'', ''c_like_flags'', ''linker_flags'']
                \<and> run h [''xcrun'', ''--sdk'', ''macosx'', ''--show-sdk-path''] = Some out
                \<and> map_of constants_section ''common_flags''
                    = Some (strv_to_meson
                              [''-target'', ''arm64-apple-macos11.0'', ''-isysroot'', strip out])))"
proof -
  have tgt: "target (machine_spec ''macos'' ''arm64'' None) = Inr ''arm64-apple-macos11.0''"
    by (simp add: target_def os_minver_def clang_arch_def machine_spec_def
        APPLE_MINIMUM_OS_VERSIONS_def APPLE_CLANG_ARCHS_def)
  have sdk: "map_of APPLE_SDKS (os_dash_config (machine_spec ''macos'' ''arm64'' None))
               = Some ''macosx''"
    by (simp add: APPLE_SDKS_def machine_spec_def)
  have "\<exists>constants_section out.
          config' ''constants'' = Some constants_section
          \<and> map fst constants_section = [''common_flags'', ''c_like_flags'', ''linker_flags'']
          \<and> run h [''xcrun'', ''--sdk'', ''macosx'', ''--show-sdk-path''] = Some out
          \<and> map_of constants_section ''common_flags''
              = Some (strv_to_meson
                        [''-target'', ''arm64-apple-macos11.0'', ''-isysroot'', strip out])"
    if "init_machine_config h strv_to_meson (machine_spec ''macos'' ''arm64'' None) None
           native_machine is_cross_build call_selected_meson config0 = (Inr r, config')"
    for r config'
  proof -
    from constants_section_written [OF that] tgt sdk obtain out lflags where
      out: "run h [''xcrun'', ''--sdk'', ''macosx'', ''--show-sdk-path''] = Some out"
      and c: "config' ''constants''
                = Some (constants strv_to_meson h (machine_spec ''macos'' ''arm64'' None) None
                          ''arm64-apple-macos11.0'' (strip out) lflags)"
      by auto
    show ?thesis
      using out c by (simp add: constants_keys constants_common_flags)
  qed
  with tgt show ?thesis by blast
qed

theorem macos_arm64_example_witness:
  "\<exists>constants_section.
     snd (init_machine_config demo_host demo_meson (machine_spec ''macos'' ''arm64'' None) None
            (machine_spec ''macos'' ''arm64'' None) False () Map.empty) ''constants''
       = Some constants_section
     \<and> map fst constants_section = [''common_flags'', ''c_like_flags'', ''linker_flags'']
     \<and> map_of constants_section ''common_flags''
         = Some (demo_meson [''-target'', ''arm64-apple-macos11.0'', ''-isysroot'',
                             ''/sdks/macosx.sdk''])"
proof -
  have out: "run demo_host [''xcrun'', ''--sdk'', ''macosx'', ''--show-sdk-path'']
               = Some (''/sdks/macosx.sdk'' @ [CHR 0x0A])"
    by (simp add: demo_host_def)
  have stripped: "strip (''/sdks/macosx.sdk'' @ [CHR 0x0A]) = ''/sdks/macosx.sdk''"
    by code_simp
  note inst = macos_arm64_example [where h = demo_host
       and strv_to_meson = demo_meson
       and native_machine = "machine_spec ''macos'' ''arm64'' None" and is_cross_build = False
       and call_selected_meson = "()" and ?config0.0 = Map.empty]
  from inst demo_call_pair out stripped show ?thesis
    by (metis option.inject)
qed

end
